theory Spec2Isabelle
  imports Complex_Main
begin

section \<open>The Vertex AI embedding client of pygcp (src/pygcp/vertex.py)\<close>

text \<open>
  The class \<open>Embedding\<close> wraps one external call,
  \<open>self.model.get_embeddings(batch)\<close>, in a retry loop with exponential backoff
  (\<open>get_embeddings_with_backoff\<close>), and builds on it the single-string call
  \<open>string\<close>, the chunked call \<open>sequence\<close> and the older duplicate
  \<open>_sequence\<close>. Everything the methods do besides returning a value is made
  explicit here: the calls that reach the provider and the durations passed to
  \<open>time.sleep\<close> are logged in the state, and every exception is a value.
\<close>

subsection \<open>Data\<close>

text \<open>The exceptions the methods themselves can raise.\<close>

datatype py_error = AttributeError | TypeError | IndexError | ValueError

text \<open>
  What is handed to the provider: a string, or a list. \<open>input_kind == "str"\<close>
  wraps whatever it is given in a one-element list.
\<close>

datatype py_data = PyStr string | PyList "py_data list"

text \<open>
  An item of the provider's answer: an object of the SDK. The source reads the vector
  of an item through the attribute \<open>.values\<close> (in \<open>string\<close>, \<open>_sequence\<close> and
  \<open>_sequence_old\<close>); \<open>sequence\<close> assigns the item itself to a row of a numpy array.
  The second component is what numpy reads from the object then: a row of floats, or the
  exception it raises when the object does not convert. The SDK's \<open>TextEmbedding\<close> is
  neither a number nor a sequence, and numpy raises a TypeError on it. Floating-point
  numbers are only stored and copied, never computed with, so they are modelled as
  reals.
\<close>

datatype text_embedding = TextEmbedding (values': "real list") (np_row: "py_error + real list")

text \<open>
  The provider \<open>self.model.get_embeddings\<close>. It is external and may fail or answer
  differently from one call to the next, so its outcome is a function of the number of
  calls it has received so far and of the batch; \<open>None\<close> is a raised exception.
\<close>

type_synonym provider = "nat \<Rightarrow> py_data \<Rightarrow> text_embedding list option"

text \<open>
  The instance. \<open>__init__\<close> assigns the attributes one after the other and calls a
  method in between, so the attributes assigned after that call are optional:
  \<open>None\<close> is an attribute that has not been assigned yet.
\<close>

record embedding =
  model_version :: string
  api_request_limit :: int
  model :: provider
  size' :: "nat option"
  api_retry_limit :: "int option"
  api_retry_delay :: "int option"
  api_backoff_factor :: "int option"
  verbose :: "bool option"

text \<open>
  The state the methods run in: the instance, the batches sent to the provider so far
  and the durations slept so far (both oldest first).
\<close>

record state =
  self :: embedding
  calls :: "py_data list"
  sleeps :: "int list"

text \<open>
  What \<open>sequence\<close> returns: on the short path whatever the retry primitive returned
  (Python's \<open>None\<close> or the provider's list of items), on the chunked path a numpy
  array, modelled as the list of its rows.
\<close>

datatype seq_result =
  FromPrimitive "text_embedding list option"
  | NdArray "real list list"

subsection \<open>The retry primitive\<close>

text \<open>
  The body of \<open>for _r in range(self.api_retry_limit)\<close>, as a recursion over the values
  of the range. A call is logged whether it succeeds or not. The wait is computed and
  slept after every failed call; \<open>time.sleep\<close> raises ValueError on a negative
  duration. The \<open>verbose\<close> print only writes to standard output.
\<close>

fun retry_loop ::
  "state \<Rightarrow> py_data \<Rightarrow> bool \<Rightarrow> nat list \<Rightarrow> (py_error + text_embedding list option) \<times> state" where
  "retry_loop s input_data verbose' [] = (Inr None, s)"
| "retry_loop s input_data verbose' (r # rs) =
    (let s1 = s\<lparr>calls := calls s @ [input_data]\<rparr> in
     case model (self s) (length (calls s)) input_data of
       Some emb \<Rightarrow> (Inr (Some emb), s1)
     | None \<Rightarrow>
        (case api_retry_delay (self s1) of
           None \<Rightarrow> (Inl AttributeError, s1)
         | Some d \<Rightarrow>
            (case api_backoff_factor (self s1) of
               None \<Rightarrow> (Inl AttributeError, s1)
             | Some b \<Rightarrow>
                (let wait = d * b ^ r in
                 if wait < 0 then (Inl ValueError, s1)
                 else retry_loop (s1\<lparr>sleeps := sleeps s1 @ [wait]\<rparr>) input_data verbose' rs))))"

definition get_embeddings_with_backoff ::
  "state \<Rightarrow> py_data \<Rightarrow> string \<Rightarrow> bool \<Rightarrow> (py_error + text_embedding list option) \<times> state" where
  "get_embeddings_with_backoff s input_data input_kind verbose' =
    (let input_data = (if input_kind = ''str'' then PyList [input_data] else input_data) in
     case api_retry_limit (self s) of
       None \<Rightarrow> (Inl AttributeError, s)
     | Some L \<Rightarrow> retry_loop s input_data verbose' [0..<nat L])"

subsection \<open>A single string\<close>

text \<open>
  \<open>embed[0].values\<close>: subscripting \<open>None\<close> is a TypeError, the first item of an
  empty list an IndexError.
\<close>

definition string :: "state \<Rightarrow> string \<Rightarrow> (py_error + real list) \<times> state" where
  "string s input_string =
    (case get_embeddings_with_backoff s (PyStr input_string) ''str'' False of
       (Inl e, s1) \<Rightarrow> (Inl e, s1)
     | (Inr None, s1) \<Rightarrow> (Inl TypeError, s1)
     | (Inr (Some []), s1) \<Rightarrow> (Inl IndexError, s1)
     | (Inr (Some (e # es)), s1) \<Rightarrow> (Inr (values' e), s1))"

subsection \<open>Construction\<close>

text \<open>
  \<open>__init__\<close>, in the order of its assignments. \<open>TextEmbeddingModel.from_pretrained\<close>
  is the SDK's; it is a parameter. The probe \<open>self.string("dummy data")\<close> runs on the
  instance as it is after the first three assignments.
\<close>

definition init ::
  "(string \<Rightarrow> provider) \<Rightarrow> py_data list \<Rightarrow> int list \<Rightarrow> string \<Rightarrow> (py_error + unit) \<times> state" where
  "init from_pretrained cs sl mv =
    (let self0 = \<lparr>model_version = mv, api_request_limit = 5, model = from_pretrained mv,
                   size' = None, api_retry_limit = None, api_retry_delay = None,
                   api_backoff_factor = None, verbose = None\<rparr>;
         s0 = \<lparr>self = self0, calls = cs, sleeps = sl\<rparr> in
     case string s0 ''dummy data'' of
       (Inl e, s1) \<Rightarrow> (Inl e, s1)
     | (Inr v, s1) \<Rightarrow>
         (Inr (), s1\<lparr>self := (self s1)\<lparr>size' := Some (length v),
                                          api_retry_limit := Some 5,
                                          api_retry_delay := Some 5,
                                          api_backoff_factor := Some 2,
                                          verbose := Some False\<rparr>\<rparr>))"

subsection \<open>The duplicate retry loop\<close>

text \<open>
  \<open>_sequence\<close>: every iteration calls the provider; a success overwrites \<open>embed\<close>, a
  failure is passed over. Iterating over \<open>None\<close> afterwards is a TypeError.
\<close>

fun private_sequence_loop ::
  "state \<Rightarrow> py_data \<Rightarrow> text_embedding list option \<Rightarrow> nat list \<Rightarrow> text_embedding list option \<times> state" where
  "private_sequence_loop s input_seq emb [] = (emb, s)"
| "private_sequence_loop s input_seq emb (r # rs) =
    (let s1 = s\<lparr>calls := calls s @ [input_seq]\<rparr> in
     case model (self s) (length (calls s)) input_seq of
       Some e \<Rightarrow> private_sequence_loop s1 input_seq (Some e) rs
     | None \<Rightarrow> private_sequence_loop s1 input_seq emb rs)"

definition private_sequence :: "state \<Rightarrow> py_data \<Rightarrow> (py_error + real list list) \<times> state" where
  "private_sequence s input_seq =
    (case api_retry_limit (self s) of
       None \<Rightarrow> (Inl AttributeError, s)
     | Some L \<Rightarrow>
        (case private_sequence_loop s input_seq None [0..<nat L] of
           (None, s1) \<Rightarrow> (Inl TypeError, s1)
         | (Some emb, s1) \<Rightarrow> (Inr (map values' emb), s1)))"

subsection \<open>A sequence of strings\<close>

text \<open>\<open>np.zeros([n, d])\<close> and the slice \<open>input_seq[ix1:ix2]\<close> for \<open>0 \<le> ix1 \<le> ix2\<close>.\<close>

definition np_zeros :: "nat \<Rightarrow> nat \<Rightarrow> real list list" where
  "np_zeros n d = replicate n (replicate d 0)"

definition py_slice :: "'a list \<Rightarrow> nat \<Rightarrow> nat \<Rightarrow> 'a list" where
  "py_slice xs ix1 ix2 = take (ix2 - ix1) (drop ix1 xs)"

text \<open>
  \<open>range(0, n, k)\<close>: a zero step is a ValueError, a negative step gives the empty
  range (the stop \<open>n\<close> is a length), a positive step the multiples of \<open>k\<close> below \<open>n\<close>.
\<close>

definition range_step :: "nat \<Rightarrow> int \<Rightarrow> py_error + nat list" where
  "range_step n k =
    (if k = 0 then Inl ValueError
     else if k < 0 then Inr []
     else Inr (map (\<lambda>q. q * nat k) [0..<(n + nat k - 1) div nat k]))"

text \<open>
  The row assignment \<open>a[j] = embed[iy]\<close>. numpy converts the item; what it reads it
  stores when it has the width of the row, spreads over the row when it has one
  element, and rejects with a ValueError otherwise.
\<close>

definition np_setitem :: "real list list \<Rightarrow> nat \<Rightarrow> text_embedding \<Rightarrow> py_error + real list list" where
  "np_setitem a j e =
    (if length a \<le> j then Inl IndexError
     else (case np_row e of
             Inl err \<Rightarrow> Inl err
           | Inr v \<Rightarrow>
              (let d = length (a ! j) in
               if length v = d then Inr (a[j := v])
               else if length v = 1 then Inr (a[j := replicate d (hd v)])
               else Inl ValueError)))"

text \<open>
  \<open>for iy, j in enumerate(range(ix1, ix1 + len(subset_seq))): a[j] = embed[iy]\<close>;
  \<open>embed[iy]\<close> past the end of the provider's list is an IndexError.
\<close>

fun write_rows ::
  "real list list \<Rightarrow> text_embedding list \<Rightarrow> (nat \<times> nat) list \<Rightarrow> py_error + real list list" where
  "write_rows a emb [] = Inr a"
| "write_rows a emb ((iy, j) # rest) =
    (if iy < length emb then
       (case np_setitem a j (emb ! iy) of
          Inl e \<Rightarrow> Inl e
        | Inr a' \<Rightarrow> write_rows a' emb rest)
     else Inl IndexError)"

text \<open>
  The body of \<open>for i in range(0, n, self.api_request_limit)\<close>, as a recursion over the
  values of the range; \<open>k\<close> is the request limit, positive when the range is not empty.
\<close>

fun chunk_loop ::
  "state \<Rightarrow> string list \<Rightarrow> nat \<Rightarrow> real list list \<Rightarrow> nat list \<Rightarrow> (py_error + seq_result) \<times> state" where
  "chunk_loop s input_seq k a [] = (Inr (NdArray a), s)"
| "chunk_loop s input_seq k a (i # is) =
    (let ix1 = i; ix2 = i + k;
         subset_seq = py_slice input_seq ix1 ix2 in
     case get_embeddings_with_backoff s (PyList (map PyStr subset_seq)) ''list'' False of
       (Inl e, s1) \<Rightarrow> (Inl e, s1)
     | (Inr None, s1) \<Rightarrow> (Inr (NdArray a), s1)
     | (Inr (Some emb), s1) \<Rightarrow>
        (case write_rows a emb (enumerate 0 [ix1..<ix1 + length subset_seq]) of
           Inl e \<Rightarrow> (Inl e, s1)
         | Inr a' \<Rightarrow> chunk_loop s1 input_seq k a' is))"

definition sequence :: "state \<Rightarrow> string list \<Rightarrow> (py_error + seq_result) \<times> state" where
  "sequence s input_seq =
    (let n = length input_seq in
     if int n \<le> api_request_limit (self s) then
       (case get_embeddings_with_backoff s (PyList (map PyStr input_seq)) ''list'' False of
          (Inl e, s1) \<Rightarrow> (Inl e, s1)
        | (Inr r, s1) \<Rightarrow> (Inr (FromPrimitive r), s1))
     else
       (case size' (self s) of
          None \<Rightarrow> (Inl AttributeError, s)
        | Some d \<Rightarrow>
           (case range_step n (api_request_limit (self s)) of
              Inl e \<Rightarrow> (Inl e, s)
            | Inr is \<Rightarrow> chunk_loop s input_seq (nat (api_request_limit (self s))) (np_zeros n d) is)))"

subsection \<open>Example providers and an example instance\<close>

text \<open>
  A provider that answers every list, item by item, with a vector of two numbers that
  depends on the item only, in an object of the SDK's kind (numpy raises a TypeError on
  it); one that always fails; one that fails on its first call only; one that answers
  its first call only; and one that answers a single batch.
\<close>

definition demo_vector :: "py_data \<Rightarrow> real list" where
  "demo_vector x = (case x of PyStr t \<Rightarrow> [real (length t), 1] | PyList ys \<Rightarrow> [0, 0])"

definition demo_provider :: provider where
  "demo_provider t b =
    (case b of
       PyStr x \<Rightarrow> None
     | PyList items \<Rightarrow> Some (map (\<lambda>x. TextEmbedding (demo_vector x) (Inl TypeError)) items))"

definition never_provider :: provider where
  "never_provider t b = None"

definition flaky_provider :: provider where
  "flaky_provider t b = (if t = 0 then None else demo_provider t b)"

definition fading_provider :: provider where
  "fading_provider t b = (if t = 0 then demo_provider t b else None)"

definition scenario_provider :: provider where
  "scenario_provider t b =
    (if b = PyList [PyStr ''a'', PyStr ''bb''] then demo_provider t b else None)"

text \<open>
  An instance with every attribute assigned: request limit 2, vector length 2, retry
  limit 2, retry delay 1 and backoff factor 2, in a state where nothing has been sent or
  slept yet.
\<close>

definition demo_self :: "provider \<Rightarrow> embedding" where
  "demo_self p =
    \<lparr>model_version = ''textembedding-gecko@001'', api_request_limit = 2, model = p,
     size' = Some 2, api_retry_limit = Some 2, api_retry_delay = Some 1,
     api_backoff_factor = Some 2, verbose = Some False\<rparr>"

definition demo_state :: "provider \<Rightarrow> state" where
  "demo_state p = \<lparr>self = demo_self p, calls = [], sleeps = []\<rparr>"

section \<open>Properties\<close>

subsection \<open>The instance is only read\<close>

lemma retry_loop_self: "self (snd (retry_loop s b verbose' rs)) = self s"
  by (induction rs arbitrary: s) (auto simp: Let_def split: option.splits)

lemma gewb_self: "self (snd (get_embeddings_with_backoff s b kind verbose')) = self s"
  by (simp add: get_embeddings_with_backoff_def Let_def retry_loop_self split: option.splits)

lemma string_self: "self (snd (string s x)) = self s"
  using gewb_self [of s "PyStr x" "''str''" False]
  by (auto simp: string_def split: prod.splits sum.splits option.splits list.splits)

lemma chunk_loop_self: "self (snd (chunk_loop s xs k a is)) = self s"
proof (induction "is" arbitrary: s a)
  case Nil
  show ?case by simp
next
  case (Cons i "is")
  show ?case
    using gewb_self [of s "PyList (map PyStr (py_slice xs i (i + k)))" "''list''" False] Cons.IH
    by (auto simp: Let_def split: prod.splits sum.splits option.splits)
qed

lemma sequence_self: "self (snd (sequence s xs)) = self s"
  using gewb_self [of s "PyList (map PyStr xs)" "''list''" False]
  by (auto simp: sequence_def Let_def chunk_loop_self split: prod.splits sum.splits option.splits)

subsection \<open>The retry loop\<close>

lemma retry_loop_failures:
  assumes "api_retry_delay (self s) = Some d" and "api_backoff_factor (self s) = Some b"
    and "0 \<le> d" and "0 \<le> b"
    and "\<forall>i<k. model (self s) (length (calls s) + i) batch = None"
  shows "retry_loop s batch verbose' ([r0..<r0 + k] @ rest) =
         retry_loop (s\<lparr>calls := calls s @ replicate k batch,
                         sleeps := sleeps s @ map (\<lambda>r. d * b ^ r) [r0..<r0 + k]\<rparr>) batch verbose' rest"
  using assms
proof (induction k arbitrary: s r0)
  case 0
  then show ?case by simp
next
  case (Suc k)
  let ?s2 = "s\<lparr>calls := calls s @ [batch], sleeps := sleeps s @ [d * b ^ r0]\<rparr>"
  have first: "model (self s) (length (calls s)) batch = None"
    using Suc.prems(5) by (metis add.right_neutral zero_less_Suc)
  have rest_fail: "\<forall>i<k. model (self ?s2) (length (calls ?s2) + i) batch = None"
    using Suc.prems(5) by auto
  have range: "[r0..<r0 + Suc k] = r0 # [Suc r0..<Suc r0 + k]"
    by (simp add: upt_conv_Cons)
  have nonneg: "\<not> d * b ^ r0 < 0"
    using Suc.prems(3,4) by (simp add: not_less)
  have unfold: "retry_loop s batch verbose' (r0 # rs) = retry_loop ?s2 batch verbose' rs" for rs
    using first Suc.prems(1,2) nonneg by (simp add: Let_def)
  have step: "retry_loop s batch verbose' ([r0..<r0 + Suc k] @ rest) =
              retry_loop ?s2 batch verbose' ([Suc r0..<Suc r0 + k] @ rest)"
    unfolding range append_Cons by (rule unfold)
  have "retry_loop ?s2 batch verbose' ([Suc r0..<Suc r0 + k] @ rest) =
        retry_loop (?s2\<lparr>calls := calls ?s2 @ replicate k batch,
                         sleeps := sleeps ?s2 @ map (\<lambda>r. d * b ^ r) [Suc r0..<Suc r0 + k]\<rparr>) batch verbose' rest"
    using Suc.IH [of ?s2 "Suc r0"] Suc.prems(1-4) rest_fail by simp
  also have "?s2\<lparr>calls := calls ?s2 @ replicate k batch,
                 sleeps := sleeps ?s2 @ map (\<lambda>r. d * b ^ r) [Suc r0..<Suc r0 + k]\<rparr> =
             s\<lparr>calls := calls s @ replicate (Suc k) batch,
               sleeps := sleeps s @ map (\<lambda>r. d * b ^ r) [r0..<r0 + Suc k]\<rparr>"
    unfolding range by simp
  finally show ?case using step by simp
qed

lemma retry_loop_exhausted:
  assumes "api_retry_delay (self s) = Some d" and "api_backoff_factor (self s) = Some b"
    and "0 \<le> d" and "0 \<le> b"
    and "\<forall>i<n. model (self s) (length (calls s) + i) batch = None"
  shows "retry_loop s batch verbose' [0..<n] =
         (Inr None, s\<lparr>calls := calls s @ replicate n batch,
                       sleeps := sleeps s @ map (\<lambda>r. d * b ^ r) [0..<n]\<rparr>)"
  using retry_loop_failures [OF assms, of verbose' 0 "[]"] by simp

lemma retry_loop_first_success:
  assumes "api_retry_delay (self s) = Some d" and "api_backoff_factor (self s) = Some b"
    and "0 \<le> d" and "0 \<le> b"
    and "\<forall>i<k. model (self s) (length (calls s) + i) batch = None"
    and "model (self s) (length (calls s) + k) batch = Some e" and "k < n"
  shows "retry_loop s batch verbose' [0..<n] =
         (Inr (Some e), s\<lparr>calls := calls s @ replicate (Suc k) batch,
                           sleeps := sleeps s @ map (\<lambda>r. d * b ^ r) [0..<k]\<rparr>)"
proof -
  have split: "[0..<n] = [0..<0 + k] @ (k # [Suc k..<n])"
  proof -
    have "[0..<n] = [0..<k] @ [k..<n]"
      using \<open>k < n\<close> upt_add_eq_append [of 0 k "n - k"] by simp
    then show ?thesis
      using \<open>k < n\<close> by (simp add: upt_conv_Cons)
  qed
  show ?thesis
    unfolding split retry_loop_failures [OF assms(1-5)]
    using assms(6) by (simp add: Let_def replicate_append_same)
qed

subsection \<open>The chunk loop\<close>

text \<open>
  When numpy does not convert the first item of an answer, its exception leaves the loop
  at the first row of the chunk.
\<close>

lemma chunk_loop_item_rejected:
  assumes "get_embeddings_with_backoff s (PyList (map PyStr (py_slice xs i (i + k)))) ''list'' False =
             (Inr (Some (e # es)), s1)"
    and "py_slice xs i (i + k) \<noteq> []" and "i < length a" and "np_row e = Inl err"
  shows "chunk_loop s xs k a (i # is) = (Inl err, s1)"
proof -
  obtain m where m: "length (py_slice xs i (i + k)) = Suc m"
    using assms(2) by (cases "py_slice xs i (i + k)") auto
  have "enumerate 0 [i..<i + Suc m] = (0, i) # enumerate 1 [Suc i..<i + Suc m]"
    by (simp add: upt_conv_Cons)
  then have "write_rows a (e # es) (enumerate 0 [i..<i + length (py_slice xs i (i + k))]) = Inl err"
    unfolding m using assms(3,4) by (simp add: np_setitem_def)
  then show ?thesis using assms(1) by (simp add: Let_def)
qed

subsection \<open>The duplicate retry loop\<close>

lemma private_sequence_loop_state:
  "snd (private_sequence_loop s inp acc rs) = s\<lparr>calls := calls s @ replicate (length rs) inp\<rparr>"
proof (induction rs arbitrary: s acc)
  case Nil
  show ?case by simp
next
  case (Cons r rs)
  show ?case
    by (cases "model (self s) (length (calls s)) inp")
      (simp_all add: Let_def Cons.IH replicate_append_same)
qed

lemma private_sequence_loop_all_fail:
  assumes "\<forall>i<length rs. model (self s) (length (calls s) + i) inp = None"
  shows "fst (private_sequence_loop s inp acc rs) = acc"
  using assms
proof (induction rs arbitrary: s)
  case Nil
  show ?case by simp
next
  case (Cons r rs)
  let ?s1 = "s\<lparr>calls := calls s @ [inp]\<rparr>"
  have first: "model (self s) (length (calls s)) inp = None"
    using Cons.prems by (metis add.right_neutral length_greater_0_conv list.distinct(1))
  have later: "\<forall>i<length rs. model (self ?s1) (length (calls ?s1) + i) inp = None"
    using Cons.prems by auto
  show ?case using first Cons.IH [OF later] by (simp add: Let_def)
qed

lemma private_sequence_loop_last_answer:
  assumes "k < length rs"
    and "model (self s) (length (calls s) + k) inp = Some e"
    and "\<forall>i. k < i \<and> i < length rs \<longrightarrow> model (self s) (length (calls s) + i) inp = None"
  shows "fst (private_sequence_loop s inp acc rs) = Some e"
  using assms
proof (induction rs arbitrary: s acc k)
  case Nil
  then show ?case by simp
next
  case (Cons r rs)
  let ?s1 = "s\<lparr>calls := calls s @ [inp]\<rparr>"
  show ?case
  proof (cases k)
    case 0
    have here: "model (self s) (length (calls s)) inp = Some e"
      using Cons.prems(2) 0 by simp
    have later: "\<forall>i<length rs. model (self ?s1) (length (calls ?s1) + i) inp = None"
      using Cons.prems(3) 0 by auto
    show ?thesis
      using here private_sequence_loop_all_fail [OF later, of "Some e"] by (simp add: Let_def)
  next
    case (Suc k')
    have k': "k' < length rs" using Cons.prems(1) Suc by simp
    have ans: "model (self ?s1) (length (calls ?s1) + k') inp = Some e"
      using Cons.prems(2) Suc by simp
    have later: "\<forall>i. k' < i \<and> i < length rs \<longrightarrow> model (self ?s1) (length (calls ?s1) + i) inp = None"
    proof (intro allI impI)
      fix i assume "k' < i \<and> i < length rs"
      then have "k < Suc i \<and> Suc i < length (r # rs)" using Suc by simp
      then have "model (self s) (length (calls s) + Suc i) inp = None"
        using Cons.prems(3) by blast
      then show "model (self ?s1) (length (calls ?s1) + i) inp = None" by simp
    qed
    have "fst (private_sequence_loop ?s1 inp acc' rs) = Some e" for acc'
      using k' ans later by (rule Cons.IH)
    then show ?thesis
      by (cases "model (self s) (length (calls s)) inp") (simp_all add: Let_def)
  qed
qed

subsection \<open>The first answer among the attempts\<close>

lemma first_answer_cases:
  fixes P :: "nat \<Rightarrow> 'a option"
  obtains (exhausted) "\<forall>i<n. P i = None"
  | (answered) k e where "k < n" and "\<forall>i<k. P i = None" and "P k = Some e"
proof (cases "\<forall>i<n. P i = None")
  case True
  then show ?thesis by (rule exhausted)
next
  case False
  then have "\<exists>k. k < n \<and> P k \<noteq> None" by blast
  then obtain k where k: "k < n \<and> P k \<noteq> None" and least: "\<forall>i<k. \<not> (i < n \<and> P i \<noteq> None)"
    using exists_least_iff [of "\<lambda>k. k < n \<and> P k \<noteq> None"] by blast
  from k obtain e where e: "P k = Some e" by blast
  have "\<forall>i<k. P i = None" using least k by auto
  with k e show ?thesis by (intro answered [of k e]) auto
qed

section \<open>The claims\<close>

subsection \<open>Frame: the methods do not assign to the instance\<close>

text \<open>
  C10: \<open>string\<close>, \<open>sequence\<close> and \<open>get_embeddings_with_backoff\<close> leave the instance
  as it was: the request limit, the retry limit, the retry delay, the backoff factor and
  the probed vector length (and every other attribute) are the same after the call as
  before it, whatever the call returns or raises. What changes is outside the instance:
  the calls received by the provider and the time slept.
\<close>

theorem operations_leave_instance_unchanged:
  "self (snd (string s x)) = self s
   \<and> self (snd (sequence s xs)) = self s
   \<and> self (snd (get_embeddings_with_backoff s b kind verbose')) = self s"
  by (simp add: string_self sequence_self gewb_self)

subsection \<open>Construction\<close>

text \<open>
  C7: construction is meant to send one single-item probe to the provider and to keep
  the length of the answer as the vector length. \<open>__init__\<close> calls
  \<open>self.string("dummy data")\<close> before it assigns \<open>api_retry_limit\<close>, which the retry
  primitive reads first: for every provider and model version the construction raises
  AttributeError, the provider having received no call and no vector length being set.
\<close>

theorem init_raises_before_probe:
  "fst (init from_pretrained cs sl mv) = Inl AttributeError
   \<and> calls (snd (init from_pretrained cs sl mv)) = cs
   \<and> size' (self (snd (init from_pretrained cs sl mv))) = None"
  by (simp add: init_def string_def get_embeddings_with_backoff_def)

subsection \<open>The retry primitive: attempts and waits\<close>

text \<open>
  C2: with the retry limit \<open>L \<ge> 0\<close> and a non-negative delay and factor, the retry
  primitive sends the batch to the provider at most \<open>L\<close> times; when the first answer
  comes at attempt \<open>k < L\<close> it returns that answer after exactly \<open>k + 1\<close> calls; when
  all \<open>L\<close> attempts fail it returns \<open>None\<close>, which is not the empty list, after
  exactly \<open>L\<close> calls.
\<close>

theorem backoff_attempts:
  assumes "api_retry_limit (self s) = Some L" and "0 \<le> L"
    and "api_retry_delay (self s) = Some d" and "api_backoff_factor (self s) = Some b"
    and "0 \<le> d" and "0 \<le> b"
  shows "(\<exists>k. int k \<le> L \<and>
            calls (snd (get_embeddings_with_backoff s batch ''list'' verbose')) = calls s @ replicate k batch)
    \<and> (\<forall>k e. k < nat L
            \<and> (\<forall>i<k. model (self s) (length (calls s) + i) batch = None)
            \<and> model (self s) (length (calls s) + k) batch = Some e
          \<longrightarrow> fst (get_embeddings_with_backoff s batch ''list'' verbose') = Inr (Some e)
            \<and> calls (snd (get_embeddings_with_backoff s batch ''list'' verbose')) = calls s @ replicate (Suc k) batch)
    \<and> ((\<forall>i<nat L. model (self s) (length (calls s) + i) batch = None)
          \<longrightarrow> fst (get_embeddings_with_backoff s batch ''list'' verbose') = Inr None
            \<and> calls (snd (get_embeddings_with_backoff s batch ''list'' verbose')) = calls s @ replicate (nat L) batch)
    \<and> (Inr None :: py_error + text_embedding list option) \<noteq> Inr (Some [])"
proof -
  let ?P = "\<lambda>i. model (self s) (length (calls s) + i) batch"
  have prim: "get_embeddings_with_backoff s batch ''list'' verbose' = retry_loop s batch verbose' [0..<nat L]"
    using assms(1) by (simp add: get_embeddings_with_backoff_def)
  have success: "get_embeddings_with_backoff s batch ''list'' verbose' =
        (Inr (Some e), s\<lparr>calls := calls s @ replicate (Suc k) batch,
                          sleeps := sleeps s @ map (\<lambda>r. d * b ^ r) [0..<k]\<rparr>)"
    if "k < nat L" and "\<forall>i<k. ?P i = None" and "?P k = Some e" for k e
    unfolding prim using assms(3-6) that(2,3,1) by (rule retry_loop_first_success)
  have failure: "get_embeddings_with_backoff s batch ''list'' verbose' =
        (Inr None, s\<lparr>calls := calls s @ replicate (nat L) batch,
                      sleeps := sleeps s @ map (\<lambda>r. d * b ^ r) [0..<nat L]\<rparr>)"
    if "\<forall>i<nat L. ?P i = None"
    unfolding prim using assms(3-6) that by (rule retry_loop_exhausted)
  have bound: "\<exists>k. int k \<le> L \<and>
      calls (snd (get_embeddings_with_backoff s batch ''list'' verbose')) = calls s @ replicate k batch"
  proof (cases "\<forall>i<nat L. ?P i = None")
    case True
    then show ?thesis using failure assms(2) by (intro exI [of _ "nat L"]) simp
  next
    case False
    then have "\<exists>k. k < nat L \<and> ?P k \<noteq> None" by blast
    then obtain k where k: "k < nat L \<and> ?P k \<noteq> None" and least: "\<forall>i<k. \<not> (i < nat L \<and> ?P i \<noteq> None)"
      using exists_least_iff [of "\<lambda>k. k < nat L \<and> ?P k \<noteq> None"] by blast
    from k obtain e where e: "?P k = Some e" by blast
    have "\<forall>i<k. ?P i = None" using least k by auto
    then show ?thesis using success [of k e] k e by (intro exI [of _ "Suc k"]) auto
  qed
  have first_success: "\<forall>k e. k < nat L
            \<and> (\<forall>i<k. model (self s) (length (calls s) + i) batch = None)
            \<and> model (self s) (length (calls s) + k) batch = Some e
          \<longrightarrow> fst (get_embeddings_with_backoff s batch ''list'' verbose') = Inr (Some e)
            \<and> calls (snd (get_embeddings_with_backoff s batch ''list'' verbose')) = calls s @ replicate (Suc k) batch"
  proof (intro allI impI)
    fix k e
    assume "k < nat L \<and> (\<forall>i<k. ?P i = None) \<and> ?P k = Some e"
    then have "get_embeddings_with_backoff s batch ''list'' verbose' =
        (Inr (Some e), s\<lparr>calls := calls s @ replicate (Suc k) batch,
                          sleeps := sleeps s @ map (\<lambda>r. d * b ^ r) [0..<k]\<rparr>)"
      using success [of k e] by blast
    then show "fst (get_embeddings_with_backoff s batch ''list'' verbose') = Inr (Some e)
            \<and> calls (snd (get_embeddings_with_backoff s batch ''list'' verbose')) = calls s @ replicate (Suc k) batch"
      by simp
  qed
  have exhausted: "(\<forall>i<nat L. ?P i = None)
          \<longrightarrow> fst (get_embeddings_with_backoff s batch ''list'' verbose') = Inr None
            \<and> calls (snd (get_embeddings_with_backoff s batch ''list'' verbose')) = calls s @ replicate (nat L) batch"
    using failure by simp
  from bound first_success exhausted show ?thesis by simp
qed

text \<open>
  An instance of the above: the provider fails on its first call and answers the
  second; the primitive returns that answer after two calls.
\<close>

theorem backoff_attempts_example:
  "api_retry_limit (self (demo_state flaky_provider)) = Some 2
   \<and> api_retry_delay (self (demo_state flaky_provider)) = Some 1
   \<and> api_backoff_factor (self (demo_state flaky_provider)) = Some 2
   \<and> model (self (demo_state flaky_provider)) 0 (PyList [PyStr ''a'']) = None
   \<and> fst (get_embeddings_with_backoff (demo_state flaky_provider) (PyList [PyStr ''a'']) ''list'' False)
       = Inr (Some [TextEmbedding [1, 1] (Inl TypeError)])
   \<and> calls (snd (get_embeddings_with_backoff (demo_state flaky_provider) (PyList [PyStr ''a'']) ''list'' False))
       = [PyList [PyStr ''a''], PyList [PyStr ''a'']]"
proof -
  let ?s = "demo_state flaky_provider"
  have cfg: "api_retry_limit (self ?s) = Some 2" "(0::int) \<le> 2" "api_retry_delay (self ?s) = Some 1"
    "api_backoff_factor (self ?s) = Some 2" "(0::int) \<le> 1" "(0::int) \<le> 2"
    by (simp_all add: demo_state_def demo_self_def)
  have outcomes: "model (self ?s) 0 (PyList [PyStr ''a'']) = None"
    "model (self ?s) 1 (PyList [PyStr ''a'']) = Some [TextEmbedding [1, 1] (Inl TypeError)]"
    by (simp_all add: demo_state_def demo_self_def flaky_provider_def demo_provider_def demo_vector_def)
  have start: "calls ?s = []" by (simp add: demo_state_def)
  from backoff_attempts [OF cfg, of "PyList [PyStr ''a'']" False]
  have "1 < nat 2
            \<and> (\<forall>i<1. model (self ?s) (length (calls ?s) + i) (PyList [PyStr ''a'']) = None)
            \<and> model (self ?s) (length (calls ?s) + 1) (PyList [PyStr ''a'']) = Some [TextEmbedding [1, 1] (Inl TypeError)]
          \<longrightarrow> fst (get_embeddings_with_backoff ?s (PyList [PyStr ''a'']) ''list'' False) = Inr (Some [TextEmbedding [1, 1] (Inl TypeError)])
            \<and> calls (snd (get_embeddings_with_backoff ?s (PyList [PyStr ''a'']) ''list'' False)) =
                calls ?s @ replicate (Suc 1) (PyList [PyStr ''a''])"
    by blast
  then show ?thesis using cfg outcomes start by simp
qed

text \<open>
  C3: a wait is meant to separate two consecutive attempts, so that no wait follows the
  last failed attempt. The loop sleeps in the handler of every failed attempt, the last
  one included: with retry limit 2, delay 1 and factor 2 and a provider that always
  fails, the primitive makes two calls and sleeps 1 second after the first and 2 seconds
  after the second, before it returns \<open>None\<close>.
\<close>

theorem backoff_sleeps_after_last_attempt:
  "get_embeddings_with_backoff (demo_state never_provider) (PyList [PyStr ''ccc'', PyStr ''dddd'']) ''list'' False =
     (Inr None,
      \<lparr>self = demo_self never_provider,
       calls = [PyList [PyStr ''ccc'', PyStr ''dddd''], PyList [PyStr ''ccc'', PyStr ''dddd'']],
       sleeps = [1, 2]\<rparr>)"
  by (simp add: get_embeddings_with_backoff_def demo_state_def demo_self_def never_provider_def
      upt_rec Let_def)

subsection \<open>The short path of \<open>sequence\<close>\<close>

text \<open>
  C1: \<open>sequence\<close> is meant to return an array with one row for each input string, row
  \<open>i\<close> being the vector \<open>string\<close> returns for string \<open>i\<close>. For an input no longer
  than the request limit it returns what the retry primitive returned: the provider's
  list of items, not an array of their vectors. Here the one item is the object whose
  attribute \<open>.values\<close> is the vector \<open>[1, 1]\<close> that \<open>string\<close> returns for the same
  text.
\<close>

theorem sequence_short_path_returns_items:
  "fst (sequence (demo_state demo_provider) [''a'']) = Inr (FromPrimitive (Some [TextEmbedding [1, 1] (Inl TypeError)]))
   \<and> fst (string (demo_state demo_provider) ''a'') = Inr [1, 1]"
  by (simp add: sequence_def string_def get_embeddings_with_backoff_def demo_state_def demo_self_def
      demo_provider_def demo_vector_def upt_rec Let_def)

text \<open>
  C5: a failed \<open>sequence\<close> call is meant to return an array with all-zero rows, never
  an absent result. For an input no longer than the request limit and a provider that
  fails on every attempt it returns Python's \<open>None\<close>.
\<close>

theorem sequence_short_path_returns_none:
  "fst (sequence (demo_state never_provider) [''a'']) = Inr (FromPrimitive None)"
  by (simp add: sequence_def get_embeddings_with_backoff_def demo_state_def demo_self_def
      never_provider_def upt_rec Let_def)

subsection \<open>A single string\<close>

text \<open>
  C8: \<open>string\<close> wraps its text in a one-element list, hands it to the retry primitive
  (its effect on the state is the primitive's, and every call the provider receives is
  that one-element batch) and returns the vector of the first item of the answer. With
  every retry attribute assigned, a non-negative delay and factor and a provider that
  never answers such a batch with an empty list, it raises exactly when all attempts for
  that batch fail; an answer at any attempt, whatever failed before, is returned.
\<close>

theorem string_fails_iff_retries_exhausted:
  assumes "api_retry_limit (self s) = Some L"
    and "api_retry_delay (self s) = Some d" and "api_backoff_factor (self s) = Some b"
    and "0 \<le> d" and "0 \<le> b"
    and "\<forall>t. model (self s) t (PyList [PyStr x]) \<noteq> Some []"
  shows "snd (string s x) = snd (get_embeddings_with_backoff s (PyStr x) ''str'' False)
    \<and> (\<exists>k\<le>nat L. calls (snd (string s x)) = calls s @ replicate k (PyList [PyStr x]))
    \<and> (isl (fst (string s x)) \<longleftrightarrow>
          (\<forall>i<nat L. model (self s) (length (calls s) + i) (PyList [PyStr x]) = None))
    \<and> (\<forall>k e es. k < nat L
            \<and> (\<forall>i<k. model (self s) (length (calls s) + i) (PyList [PyStr x]) = None)
            \<and> model (self s) (length (calls s) + k) (PyList [PyStr x]) = Some (e # es)
          \<longrightarrow> fst (string s x) = Inr (values' e))"
proof -
  let ?b = "PyList [PyStr x]"
  let ?P = "\<lambda>i. model (self s) (length (calls s) + i) ?b"
  have prim: "get_embeddings_with_backoff s (PyStr x) ''str'' False = retry_loop s ?b False [0..<nat L]"
    using assms(1) by (simp add: get_embeddings_with_backoff_def)
  have delegates: "snd (string s x) = snd (get_embeddings_with_backoff s (PyStr x) ''str'' False)"
    by (simp add: string_def split: prod.splits sum.splits option.splits list.splits)
  have failure: "string s x = (Inl TypeError, s\<lparr>calls := calls s @ replicate (nat L) ?b,
                      sleeps := sleeps s @ map (\<lambda>r. d * b ^ r) [0..<nat L]\<rparr>)"
    if "\<forall>i<nat L. ?P i = None"
    using retry_loop_exhausted [OF assms(2-5) that, of False]
    by (simp add: string_def prim)
  have success: "string s x = (Inr (values' e), s\<lparr>calls := calls s @ replicate (Suc k) ?b,
                          sleeps := sleeps s @ map (\<lambda>r. d * b ^ r) [0..<k]\<rparr>)"
    if "k < nat L" and "\<forall>i<k. ?P i = None" and "?P k = Some (e # es)" for k e es
    using retry_loop_first_success [OF assms(2-5) that(2,3,1), of False]
    by (simp add: string_def prim)
  have bound: "\<exists>k\<le>nat L. calls (snd (string s x)) = calls s @ replicate k ?b"
    and iff: "isl (fst (string s x)) \<longleftrightarrow> (\<forall>i<nat L. ?P i = None)"
  proof -
    consider (exhausted) "\<forall>i<nat L. ?P i = None"
      | (answered) k a where "k < nat L" and "\<forall>i<k. ?P i = None" and "?P k = Some a"
      by (rule first_answer_cases [of "nat L" ?P]) blast+
    then have "(\<exists>k\<le>nat L. calls (snd (string s x)) = calls s @ replicate k ?b)
               \<and> (isl (fst (string s x)) \<longleftrightarrow> (\<forall>i<nat L. ?P i = None))"
    proof cases
      case exhausted
      have "calls (snd (string s x)) = calls s @ replicate (nat L) ?b"
        using failure [OF exhausted] by simp
      then have "\<exists>k\<le>nat L. calls (snd (string s x)) = calls s @ replicate k ?b"
        by (intro exI [of _ "nat L"]) simp
      then show ?thesis using failure [OF exhausted] exhausted by simp
    next
      case answered
      from answered(3) assms(6) obtain e es where a: "a = e # es"
        by (cases a) auto
      note res = success [OF answered(1,2) answered(3) [unfolded a]]
      have "calls (snd (string s x)) = calls s @ replicate (Suc k) ?b"
        using res by simp
      then have "\<exists>k\<le>nat L. calls (snd (string s x)) = calls s @ replicate k ?b"
        using answered(1) by (intro exI [of _ "Suc k"]) simp
      moreover have "\<not> (\<forall>i<nat L. ?P i = None)"
        using answered(1,3) by auto
      ultimately show ?thesis using res by simp
    qed
    then show "\<exists>k\<le>nat L. calls (snd (string s x)) = calls s @ replicate k ?b"
      and "isl (fst (string s x)) \<longleftrightarrow> (\<forall>i<nat L. ?P i = None)"
      by blast+
  qed
  have sole: "\<forall>k e es. k < nat L \<and> (\<forall>i<k. ?P i = None) \<and> ?P k = Some (e # es)
          \<longrightarrow> fst (string s x) = Inr (values' e)"
  proof (intro allI impI)
    fix k e es
    assume "k < nat L \<and> (\<forall>i<k. ?P i = None) \<and> ?P k = Some (e # es)"
    then have "string s x = (Inr (values' e), s\<lparr>calls := calls s @ replicate (Suc k) ?b,
                          sleeps := sleeps s @ map (\<lambda>r. d * b ^ r) [0..<k]\<rparr>)"
      using success [of k e es] by blast
    then show "fst (string s x) = Inr (values' e)" by simp
  qed
  from delegates bound iff sole show ?thesis by blast
qed

text \<open>
  An instance of the above: the provider fails on its first call and answers the
  second; \<open>string\<close> returns the vector of that answer.
\<close>

theorem string_survives_one_failure:
  "api_retry_limit (self (demo_state flaky_provider)) = Some 2
   \<and> api_retry_delay (self (demo_state flaky_provider)) = Some 1
   \<and> api_backoff_factor (self (demo_state flaky_provider)) = Some 2
   \<and> model (self (demo_state flaky_provider)) 0 (PyList [PyStr ''bb'']) = None
   \<and> fst (string (demo_state flaky_provider) ''bb'') = Inr [2, 1]
   \<and> \<not> isl (fst (string (demo_state flaky_provider) ''bb''))"
proof -
  let ?s = "demo_state flaky_provider"
  let ?b = "PyList [PyStr ''bb'']"
  have cfg: "api_retry_limit (self ?s) = Some 2" "api_retry_delay (self ?s) = Some 1"
    "api_backoff_factor (self ?s) = Some 2" "(0::int) \<le> 1" "(0::int) \<le> 2"
    by (simp_all add: demo_state_def demo_self_def)
  have contract: "\<forall>t. model (self ?s) t ?b \<noteq> Some []"
    by (simp add: demo_state_def demo_self_def flaky_provider_def demo_provider_def)
  have outcomes: "model (self ?s) 0 ?b = None"
    "model (self ?s) 1 ?b = Some [TextEmbedding [2, 1] (Inl TypeError)]"
    by (simp_all add: demo_state_def demo_self_def flaky_provider_def demo_provider_def demo_vector_def)
  have start: "calls ?s = []" by (simp add: demo_state_def)
  note inst = string_fails_iff_retries_exhausted [OF cfg contract]
  from inst have "1 < nat 2
            \<and> (\<forall>i<1. model (self ?s) (length (calls ?s) + i) ?b = None)
            \<and> model (self ?s) (length (calls ?s) + 1) ?b = Some (TextEmbedding [2, 1] (Inl TypeError) # [])
          \<longrightarrow> fst (string ?s ''bb'') = Inr (values' (TextEmbedding [2, 1] (Inl TypeError)))"
    by blast
  then have "fst (string ?s ''bb'') = Inr [2, 1]"
    using outcomes start by simp
  then show ?thesis using cfg outcomes by simp
qed

subsection \<open>The chunked path of \<open>sequence\<close>\<close>

text \<open>
  C4: when the retry primitive returns no result for chunk \<open>k\<close> after answers for the
  earlier chunks, \<open>sequence\<close> is meant to stop and return the array with the rows of
  the earlier chunks filled and the other rows zero, raising nothing. The loop assigns
  the provider's item itself to the row (\<open>a[j] = embed[iy]\<close>), not its \<open>.values\<close> as
  \<open>string\<close> and \<open>_sequence\<close> read it: with four strings, request limit 2 and a provider
  that answers the first chunk and fails on every attempt for the second, numpy's
  TypeError on the first item of the first answer leaves \<open>sequence\<close>, the provider
  having received the first chunk only.
\<close>

theorem sequence_raises_after_answered_chunk:
  "sequence (demo_state scenario_provider) [''a'', ''bb'', ''ccc'', ''dddd''] =
     (Inl TypeError,
      \<lparr>self = demo_self scenario_provider,
       calls = [PyList [PyStr ''a'', PyStr ''bb'']],
       sleeps = []\<rparr>)"
  by (simp add: sequence_def range_step_def py_slice_def np_zeros_def np_setitem_def
      get_embeddings_with_backoff_def demo_state_def demo_self_def scenario_provider_def
      demo_provider_def demo_vector_def enumerate_eq_zip upt_rec Let_def)

text \<open>
  C6: \<open>sequence\<close> is meant to cut an input longer than the request limit into
  consecutive chunks and to write each answered vector to the row of its string. With
  three strings, request limit 2 and a provider that answers every batch, the first
  chunk \<open>['a', 'bb']\<close> is sent and answered, and the assignment of its first item to row
  0 raises numpy's TypeError: no vector is written and the second chunk is never sent.
\<close>

theorem sequence_writes_no_vector:
  "sequence (demo_state demo_provider) [''a'', ''bb'', ''ccc''] =
     (Inl TypeError,
      \<lparr>self = demo_self demo_provider,
       calls = [PyList [PyStr ''a'', PyStr ''bb'']],
       sleeps = []\<rparr>)"
  by (simp add: sequence_def range_step_def py_slice_def np_zeros_def np_setitem_def
      get_embeddings_with_backoff_def demo_state_def demo_self_def
      demo_provider_def demo_vector_def enumerate_eq_zip upt_rec Let_def)

subsection \<open>The duplicate retry loop against the retry primitive\<close>

text \<open>
  C9, as stated, says that \<open>_sequence\<close> keeps only the outcome of the last attempt. It
  does not: here the provider answers the first of two attempts and fails on the second,
  and \<open>_sequence\<close> returns the vectors of the first answer.
\<close>

theorem private_sequence_keeps_earlier_answer:
  "model (self (demo_state fading_provider)) 1 (PyList [PyStr ''a'']) = None
   \<and> private_sequence (demo_state fading_provider) (PyList [PyStr ''a'']) =
       (Inr [[1, 1]],
        \<lparr>self = demo_self fading_provider, calls = [PyList [PyStr ''a''], PyList [PyStr ''a'']],
         sleeps = []\<rparr>)"
  by (simp add: private_sequence_def demo_state_def demo_self_def fading_provider_def
      demo_provider_def demo_vector_def upt_rec Let_def)

text \<open>
  C9, amended: \<open>_sequence\<close> is not equivalent to the retry primitive. It calls the
  provider exactly retry-limit times whatever the outcomes and never sleeps, where the
  primitive returns at the first answer; it returns the vectors of the last attempt that
  was answered (a later failure does not discard an earlier answer); and when every
  attempt fails it raises a TypeError where the primitive returns \<open>None\<close>.
\<close>

theorem private_sequence_differs_from_backoff:
  assumes "api_retry_limit (self s) = Some L"
    and "api_retry_delay (self s) = Some d" and "api_backoff_factor (self s) = Some b"
    and "0 \<le> d" and "0 \<le> b"
  shows "calls (snd (private_sequence s inp)) = calls s @ replicate (nat L) inp
    \<and> sleeps (snd (private_sequence s inp)) = sleeps s
    \<and> ((\<forall>i<nat L. model (self s) (length (calls s) + i) inp = None)
          \<longrightarrow> fst (private_sequence s inp) = Inl TypeError
            \<and> fst (get_embeddings_with_backoff s inp ''list'' verbose') = Inr None)
    \<and> (\<forall>k e. k < nat L
            \<and> model (self s) (length (calls s) + k) inp = Some e
            \<and> (\<forall>i. k < i \<and> i < nat L \<longrightarrow> model (self s) (length (calls s) + i) inp = None)
          \<longrightarrow> fst (private_sequence s inp) = Inr (map values' e))
    \<and> (\<forall>k e. k < nat L
            \<and> (\<forall>i<k. model (self s) (length (calls s) + i) inp = None)
            \<and> model (self s) (length (calls s) + k) inp = Some e
          \<longrightarrow> fst (get_embeddings_with_backoff s inp ''list'' verbose') = Inr (Some e)
            \<and> calls (snd (get_embeddings_with_backoff s inp ''list'' verbose')) = calls s @ replicate (Suc k) inp)"
proof -
  let ?P = "\<lambda>i. model (self s) (length (calls s) + i) inp"
  let ?loop = "private_sequence_loop s inp None [0..<nat L]"
  have prim: "get_embeddings_with_backoff s inp ''list'' verbose' = retry_loop s inp verbose' [0..<nat L]"
    using assms(1) by (simp add: get_embeddings_with_backoff_def)
  have st: "snd ?loop = s\<lparr>calls := calls s @ replicate (nat L) inp\<rparr>"
    using private_sequence_loop_state [of s inp None "[0..<nat L]"] by simp
  have snd_ps: "snd (private_sequence s inp) = snd ?loop"
    using assms(1) by (simp add: private_sequence_def split: prod.splits option.splits)
  have calls_ps: "calls (snd (private_sequence s inp)) = calls s @ replicate (nat L) inp"
    and sleeps_ps: "sleeps (snd (private_sequence s inp)) = sleeps s"
    unfolding snd_ps st by simp_all
  have raises: "(\<forall>i<nat L. ?P i = None)
          \<longrightarrow> fst (private_sequence s inp) = Inl TypeError
            \<and> fst (get_embeddings_with_backoff s inp ''list'' verbose') = Inr None"
  proof
    assume fail: "\<forall>i<nat L. ?P i = None"
    then have "fst ?loop = None"
      by (intro private_sequence_loop_all_fail) simp
    then have "fst (private_sequence s inp) = Inl TypeError"
      using assms(1) by (auto simp: private_sequence_def split: prod.splits)
    moreover have "fst (get_embeddings_with_backoff s inp ''list'' verbose') = Inr None"
      unfolding prim using retry_loop_exhausted [OF assms(2-5) fail, of verbose'] by simp
    ultimately show "fst (private_sequence s inp) = Inl TypeError
            \<and> fst (get_embeddings_with_backoff s inp ''list'' verbose') = Inr None" ..
  qed
  have keeps: "\<forall>k e. k < nat L \<and> ?P k = Some e \<and> (\<forall>i. k < i \<and> i < nat L \<longrightarrow> ?P i = None)
          \<longrightarrow> fst (private_sequence s inp) = Inr (map values' e)"
  proof (intro allI impI)
    fix k e
    assume h: "k < nat L \<and> ?P k = Some e \<and> (\<forall>i. k < i \<and> i < nat L \<longrightarrow> ?P i = None)"
    then have "fst ?loop = Some e"
      by (intro private_sequence_loop_last_answer [of k]) simp_all
    then show "fst (private_sequence s inp) = Inr (map values' e)"
      using assms(1) by (auto simp: private_sequence_def split: prod.splits)
  qed
  have returns: "\<forall>k e. k < nat L \<and> (\<forall>i<k. ?P i = None) \<and> ?P k = Some e
          \<longrightarrow> fst (get_embeddings_with_backoff s inp ''list'' verbose') = Inr (Some e)
            \<and> calls (snd (get_embeddings_with_backoff s inp ''list'' verbose')) = calls s @ replicate (Suc k) inp"
  proof (intro allI impI)
    fix k e
    assume "k < nat L \<and> (\<forall>i<k. ?P i = None) \<and> ?P k = Some e"
    then have "retry_loop s inp verbose' [0..<nat L] =
        (Inr (Some e), s\<lparr>calls := calls s @ replicate (Suc k) inp,
                          sleeps := sleeps s @ map (\<lambda>r. d * b ^ r) [0..<k]\<rparr>)"
      using retry_loop_first_success [OF assms(2-5), of k inp e "nat L" verbose'] by blast
    then show "fst (get_embeddings_with_backoff s inp ''list'' verbose') = Inr (Some e)
            \<and> calls (snd (get_embeddings_with_backoff s inp ''list'' verbose')) = calls s @ replicate (Suc k) inp"
      unfolding prim by simp
  qed
  from calls_ps sleeps_ps raises keeps returns show ?thesis by blast
qed

text \<open>
  An instance of the above: the provider answers its first call only. \<open>_sequence\<close>
  calls it twice and returns the first answer's vectors; the primitive calls it once.
\<close>

theorem private_sequence_differs_example:
  "api_retry_limit (self (demo_state fading_provider)) = Some 2
   \<and> api_retry_delay (self (demo_state fading_provider)) = Some 1
   \<and> api_backoff_factor (self (demo_state fading_provider)) = Some 2
   \<and> calls (snd (private_sequence (demo_state fading_provider) (PyList [PyStr ''a''])))
       = [PyList [PyStr ''a''], PyList [PyStr ''a'']]
   \<and> fst (private_sequence (demo_state fading_provider) (PyList [PyStr ''a''])) = Inr [[1, 1]]
   \<and> calls (snd (get_embeddings_with_backoff (demo_state fading_provider) (PyList [PyStr ''a'']) ''list'' False))
       = [PyList [PyStr ''a'']]"
proof -
  let ?s = "demo_state fading_provider"
  let ?b = "PyList [PyStr ''a'']"
  have cfg: "api_retry_limit (self ?s) = Some 2" "api_retry_delay (self ?s) = Some 1"
    "api_backoff_factor (self ?s) = Some 2" "(0::int) \<le> 1" "(0::int) \<le> 2"
    by (simp_all add: demo_state_def demo_self_def)
  have outcomes: "model (self ?s) 0 ?b = Some [TextEmbedding [1, 1] (Inl TypeError)]"
    "\<forall>i. 0 < i \<longrightarrow> model (self ?s) i ?b = None"
    by (simp_all add: demo_state_def demo_self_def fading_provider_def demo_provider_def demo_vector_def)
  have start: "calls ?s = []" by (simp add: demo_state_def)
  note inst = private_sequence_differs_from_backoff [OF cfg, of ?b False]
  from inst have c1: "calls (snd (private_sequence ?s ?b)) = calls ?s @ replicate (nat 2) ?b"
    by blast
  from inst have "0 < nat 2
            \<and> model (self ?s) (length (calls ?s) + 0) ?b = Some [TextEmbedding [1, 1] (Inl TypeError)]
            \<and> (\<forall>i. 0 < i \<and> i < nat 2 \<longrightarrow> model (self ?s) (length (calls ?s) + i) ?b = None)
          \<longrightarrow> fst (private_sequence ?s ?b) = Inr (map values' [TextEmbedding [1, 1] (Inl TypeError)])"
    by blast
  then have c2: "fst (private_sequence ?s ?b) = Inr [[1, 1]]"
    using outcomes start by simp
  from inst have "0 < nat 2
            \<and> (\<forall>i<0. model (self ?s) (length (calls ?s) + i) ?b = None)
            \<and> model (self ?s) (length (calls ?s) + 0) ?b = Some [TextEmbedding [1, 1] (Inl TypeError)]
          \<longrightarrow> fst (get_embeddings_with_backoff ?s ?b ''list'' False) = Inr (Some [TextEmbedding [1, 1] (Inl TypeError)])
            \<and> calls (snd (get_embeddings_with_backoff ?s ?b ''list'' False)) = calls ?s @ replicate (Suc 0) ?b"
    by blast
  then have c3: "calls (snd (get_embeddings_with_backoff ?s ?b ''list'' False)) = [?b]"
    using outcomes start by simp
  show ?thesis using cfg c1 c2 c3 start by (simp add: numeral_2_eq_2)
qed

end
